theory Spec2Isabelle
  imports Main "HOL-Library.Word"
begin

unbundle bit_operations_syntax

section \<open>The Windows bindings (package main, the user32 wrappers)\<close>

subsection \<open>Types and constants\<close>

text \<open>
  Go's \<open>uintptr\<close> and \<open>uint\<close> have the same width; on the 64-bit Windows target both
  are 64-bit words, and a conversion between them keeps every bit. The \<open>error\<close> a
  procedure call hands back is the thread's last error number.
\<close>

type_synonym uintptr = "64 word"
type_synonym uint = "64 word"
type_synonym goint = "64 word"
type_synonym errno = nat

type_synonym HHOOK = uintptr
type_synonym HINSTANCE = uintptr
type_synonym HWND = uintptr
type_synonym LPMSG = uintptr
type_synonym WPARAM = uintptr
type_synonym DWORD = "32 word"
type_synonym LRESULT = "64 word"
type_synonym LPARAM = "64 word"
type_synonym SHORT = "16 word"

type_synonym HOOKPROC = "goint \<Rightarrow> WPARAM \<Rightarrow> LPARAM \<Rightarrow> LRESULT"

record KEYBDINPUT =
  WVk :: "16 word"
  WScan :: "16 word"
  DwFlags :: "32 word"
  Time :: "32 word"
  DwExtraInfo :: uintptr

text \<open>
  \<open>tagINPUT\<close> of the bindings. The key constructors take the type and the constants
  from the package \<open>hook/windows\<close>, under the exported spelling \<open>TagINPUT\<close> with the
  fields \<open>InputType\<close> and \<open>Ki\<close>; that package's file is not among the sources, and
  its declarations are read off the bindings here, which declare the same structure
  and constants.
\<close>

record TagINPUT =
  InputType :: "32 word"
  Ki :: KEYBDINPUT
  padding :: "64 word"

type_synonym LPINPUT = TagINPUT

record tagKBDLLHOOKSTRUCT =
  vkCode :: DWORD
  scanCode :: DWORD
  flags :: DWORD
  time :: DWORD
  dwExtraInfo :: "32 word"

definition WH_KEYBOARD_LL :: goint where "WH_KEYBOARD_LL = 13"

definition VK_BACK :: "16 word" where "VK_BACK = 0x08"
definition VK_TAB :: "16 word" where "VK_TAB = 0x09"
definition VK_RETURN :: "16 word" where "VK_RETURN = 0x0D"
definition VK_SHIFT :: "16 word" where "VK_SHIFT = 0x10"
definition VK_CONTROL :: "16 word" where "VK_CONTROL = 0x11"
definition VK_MENU :: "16 word" where "VK_MENU = 0x12"
definition VK_CAPITAL :: "16 word" where "VK_CAPITAL = 0x14"
definition VK_SPACE :: "16 word" where "VK_SPACE = 0x20"
definition VK_END :: "16 word" where "VK_END = 0x23"
definition VK_HOME :: "16 word" where "VK_HOME = 0x24"
definition VK_LEFT :: "16 word" where "VK_LEFT = 0x25"
definition VK_UP :: "16 word" where "VK_UP = 0x26"
definition VK_RIGHT :: "16 word" where "VK_RIGHT = 0x27"
definition VK_DOWN :: "16 word" where "VK_DOWN = 0x28"

definition INPUT_MOUSE :: "32 word" where "INPUT_MOUSE = 0"
definition INPUT_KEYBOARD :: "32 word" where "INPUT_KEYBOARD = 1"
definition INPUT_HARDWARE :: "32 word" where "INPUT_HARDWARE = 2"

definition KEYEVENTF_EXTENDEDKEY :: "32 word" where "KEYEVENTF_EXTENDEDKEY = 0x0001"
definition KEYEVENTF_KEYUP :: "32 word" where "KEYEVENTF_KEYUP = 0x0002"
definition KEYEVENTF_SCANCODE :: "32 word" where "KEYEVENTF_SCANCODE = 0x0008"
definition KEYEVENTF_UNICODE :: "32 word" where "KEYEVENTF_UNICODE = 0x0004"

subsection \<open>Key event constructors (hookCommonInputKey.go)\<close>

text \<open>A composite literal leaves every field it does not name at Go's zero value.\<close>

definition tagInputKeyboard :: TagINPUT where
  "tagInputKeyboard =
     \<lparr>InputType = INPUT_KEYBOARD,
      Ki = \<lparr>WVk = 0, WScan = 0, DwFlags = 0, Time = 0, DwExtraInfo = 0\<rparr>,
      padding = 0\<rparr>"

definition tagInputShiftDown :: TagINPUT where
  "tagInputShiftDown = (let tagInput = tagInputKeyboard in tagInput\<lparr>Ki := (Ki tagInput)\<lparr>WVk := VK_SHIFT\<rparr>\<rparr>)"

definition tagInputShiftUp :: TagINPUT where
  "tagInputShiftUp = (let tagInput = tagInputShiftDown in tagInput\<lparr>Ki := (Ki tagInput)\<lparr>DwFlags := KEYEVENTF_KEYUP\<rparr>\<rparr>)"

definition tagInputCtrlDown :: TagINPUT where
  "tagInputCtrlDown = (let tagInput = tagInputKeyboard in tagInput\<lparr>Ki := (Ki tagInput)\<lparr>WVk := VK_CONTROL\<rparr>\<rparr>)"

definition tagInputCtrlUp :: TagINPUT where
  "tagInputCtrlUp = (let tagInput = tagInputCtrlDown in tagInput\<lparr>Ki := (Ki tagInput)\<lparr>DwFlags := KEYEVENTF_KEYUP\<rparr>\<rparr>)"

definition tagInputAltDown :: TagINPUT where
  "tagInputAltDown = (let tagInput = tagInputKeyboard in tagInput\<lparr>Ki := (Ki tagInput)\<lparr>WVk := VK_MENU\<rparr>\<rparr>)"

definition tagInputAltUp :: TagINPUT where
  "tagInputAltUp = (let tagInput = tagInputAltDown in tagInput\<lparr>Ki := (Ki tagInput)\<lparr>DwFlags := KEYEVENTF_KEYUP\<rparr>\<rparr>)"

definition tagInputLeftArrowDown :: TagINPUT where
  "tagInputLeftArrowDown = (let tagInput = tagInputKeyboard in tagInput\<lparr>Ki := (Ki tagInput)\<lparr>WVk := VK_LEFT\<rparr>\<rparr>)"

definition tagInputUpArrowDown :: TagINPUT where
  "tagInputUpArrowDown = (let tagInput = tagInputKeyboard in tagInput\<lparr>Ki := (Ki tagInput)\<lparr>WVk := VK_UP\<rparr>\<rparr>)"

definition tagInputRightArrowDown :: TagINPUT where
  "tagInputRightArrowDown = (let tagInput = tagInputKeyboard in tagInput\<lparr>Ki := (Ki tagInput)\<lparr>WVk := VK_RIGHT\<rparr>\<rparr>)"

definition tagInputDownnArrowDown :: TagINPUT where
  "tagInputDownnArrowDown = (let tagInput = tagInputKeyboard in tagInput\<lparr>Ki := (Ki tagInput)\<lparr>WVk := VK_DOWN\<rparr>\<rparr>)"

subsection \<open>Calling into user32.dll\<close>

text \<open>
  The procedures resolved from \<open>user32.dll\<close>, under the names of the variables that
  hold them.
\<close>

datatype LazyProc =
    winDLLUser32_ProcCallNextHookEx
  | winDLLUser32_ProcSetWindowsHookExW
  | winDLLUser32_ProcUnhookWindowsHookEx
  | winDLLUser32_GetMessageW
  | winDLLUser32_SendInput
  | winDLLUser32_GetKeyState

text \<open>
  An argument of a procedure call is a machine word. Two kinds of word stand for
  something the operating system reads through: the callback made from a Go function,
  and a pointer. A pointer is modelled by the structures stored in the variable it
  points to, so \<open>&pInputs\<close> for a parameter \<open>pInputs\<close> of the struct type
  \<open>LPINPUT\<close> is \<open>Pointer [pInputs]\<close>: the address of one structure.
\<close>

datatype arg =
    Uintptr uintptr
  | NewCallback HOOKPROC
  | Pointer "TagINPUT list"

type_synonym syscall = "LazyProc \<times> arg list"
type_synonym reply = "uintptr \<times> uintptr \<times> errno"
type_synonym log_line = "string \<times> errno"

text \<open>
  The state the wrappers act on: how the operating system answers a call (given the
  calls made before it), the calls made so far, the lines written by \<open>log.Println\<close>,
  and the error, if any, that loading \<open>user32.dll\<close> gives.
\<close>

record world =
  os :: "syscall list \<Rightarrow> syscall \<Rightarrow> reply"
  calls :: "syscall list"
  logged :: "log_line list"
  load_error :: "string option"

text \<open>A Go call either returns a value or panics with a message.\<close>

datatype 'a outcome = Returned 'a | Panicked string

definition Call :: "LazyProc \<Rightarrow> arg list \<Rightarrow> world \<Rightarrow> reply \<times> world" where
  "Call p as w = (os w (calls w) (p, as), w\<lparr>calls := calls w @ [(p, as)]\<rparr>)"

definition Println :: "string \<Rightarrow> errno \<Rightarrow> world \<Rightarrow> world" where
  "Println msg err w = w\<lparr>logged := logged w @ [(msg, err)]\<rparr>"

subsection \<open>The wrappers\<close>

definition LoadDLLs :: "world \<Rightarrow> unit outcome \<times> world" where
  "LoadDLLs w =
     (case load_error w of
        Some err \<Rightarrow> (Panicked (''LoadDLL error'' @ err), w)
      | None \<Rightarrow> (Returned (), w))"

definition CallNextHookEx :: "HHOOK \<Rightarrow> goint \<Rightarrow> WPARAM \<Rightarrow> LPARAM \<Rightarrow> world \<Rightarrow> LRESULT outcome \<times> world" where
  "CallNextHookEx hhk nCode wParam lParam w =
     (case Call winDLLUser32_ProcCallNextHookEx
             [Uintptr hhk, Uintptr nCode, Uintptr wParam, Uintptr lParam] w of
        ((result, _, _), w') \<Rightarrow> (Returned result, w'))"

definition SetWindowsHookExW :: "goint \<Rightarrow> HOOKPROC \<Rightarrow> HINSTANCE \<Rightarrow> DWORD \<Rightarrow> world \<Rightarrow> HHOOK outcome \<times> world" where
  "SetWindowsHookExW idHook lpfn hmod dwThreadID w =
     (case Call winDLLUser32_ProcSetWindowsHookExW
             [Uintptr idHook, NewCallback lpfn, Uintptr hmod, Uintptr (ucast dwThreadID)] w of
        ((result, _, _), w') \<Rightarrow> (Returned result, w'))"

definition UnhookWindowsHookEx :: "HHOOK \<Rightarrow> world \<Rightarrow> bool outcome \<times> world" where
  "UnhookWindowsHookEx hhk w =
     (case Call winDLLUser32_ProcUnhookWindowsHookEx [Uintptr hhk] w of
        ((result, _, err), w') \<Rightarrow>
          if result = 0
          then (Returned False, Println ''UnhookWindowsHookEx error:'' err w')
          else (Returned True, w'))"

definition GetMessageW :: "LPMSG \<Rightarrow> HWND \<Rightarrow> uint \<Rightarrow> uint \<Rightarrow> world \<Rightarrow> bool outcome \<times> world" where
  "GetMessageW lpMsg hWnd wMsgFilterMin wMsgFilterMax w =
     (case Call winDLLUser32_GetMessageW
             [Uintptr lpMsg, Uintptr hWnd, Uintptr wMsgFilterMin, Uintptr wMsgFilterMax] w of
        ((res, _, err), w') \<Rightarrow>
          if res = 0
          then (Returned False, Println ''GetMessageW error:'' err w')
          else (Returned True, w'))"

definition SendInput :: "uint \<Rightarrow> LPINPUT \<Rightarrow> goint \<Rightarrow> world \<Rightarrow> uint outcome \<times> world" where
  "SendInput cInputs pInputs cbSize w =
     (case Call winDLLUser32_SendInput
             [Uintptr cInputs, Pointer [pInputs], Uintptr cbSize] w of
        ((result, _, err), w') \<Rightarrow>
          if result = 0
          then (Returned 0, Println ''SendInput error:'' err w')
          else (Returned result, w'))"

definition GetKeyState :: "goint \<Rightarrow> world \<Rightarrow> SHORT outcome \<times> world" where
  "GetKeyState nVirtKey w =
     (case Call winDLLUser32_GetKeyState [Uintptr nVirtKey] w of
        ((result, _, _), w') \<Rightarrow> (Returned (ucast result), w'))"

section \<open>The management panel (the page script)\<close>

subsection \<open>Strings and \<open>JSON.stringify\<close>\<close>

text \<open>
  A JavaScript string is a sequence of 16-bit code units; \<open>js\<close> writes an ASCII literal
  as one. \<open>===\<close> on two strings compares their code units.
\<close>

type_synonym jsstring = "16 word list"

definition js :: "string \<Rightarrow> jsstring" where
  "js s = map (\<lambda>c. of_nat (of_char c)) s"

text \<open>
  \<open>JSON.stringify\<close> of an object whose properties are all strings, as ECMAScript
  (2019 and later) defines it: \<open>QuoteJSONString\<close> of every key and value, the pairs
  joined by commas between braces, in the order in which the properties were created.
  A quotation mark, a backslash and the five control characters with a short form get
  their two-character escape; any other code unit below \<open>0x20\<close> and any surrogate that
  is not part of a pair get \<open>\u\<close> and four lowercase hexadecimal digits.
\<close>

definition hexDigit :: "16 word \<Rightarrow> 16 word" where
  "hexDigit d = (if d < 10 then 0x30 + d else 0x61 + (d - 10))"

definition UnicodeEscape :: "16 word \<Rightarrow> jsstring" where
  "UnicodeEscape c =
     [0x5C, 0x75,
      hexDigit (drop_bit 12 c AND 0xF), hexDigit (drop_bit 8 c AND 0xF),
      hexDigit (drop_bit 4 c AND 0xF), hexDigit (c AND 0xF)]"

definition isLeadingSurrogate :: "16 word \<Rightarrow> bool" where
  "isLeadingSurrogate c \<longleftrightarrow> 0xD800 \<le> c \<and> c \<le> 0xDBFF"

definition isTrailingSurrogate :: "16 word \<Rightarrow> bool" where
  "isTrailingSurrogate c \<longleftrightarrow> 0xDC00 \<le> c \<and> c \<le> 0xDFFF"

definition quoteUnit :: "16 word \<Rightarrow> jsstring" where
  "quoteUnit c =
     (if c = 0x08 then [0x5C, 0x62]
      else if c = 0x09 then [0x5C, 0x74]
      else if c = 0x0A then [0x5C, 0x6E]
      else if c = 0x0C then [0x5C, 0x66]
      else if c = 0x0D then [0x5C, 0x72]
      else if c = 0x22 then [0x5C, 0x22]
      else if c = 0x5C then [0x5C, 0x5C]
      else if c < 0x20 \<or> isLeadingSurrogate c \<or> isTrailingSurrogate c then UnicodeEscape c
      else [c])"

fun quoteUnits :: "jsstring \<Rightarrow> jsstring" where
  "quoteUnits [] = []"
| "quoteUnits [c] = quoteUnit c"
| "quoteUnits (c # d # cs) =
     (if isLeadingSurrogate c \<and> isTrailingSurrogate d then c # d # quoteUnits cs
      else quoteUnit c @ quoteUnits (d # cs))"

definition QuoteJSONString :: "jsstring \<Rightarrow> jsstring" where
  "QuoteJSONString s = [0x22] @ quoteUnits s @ [0x22]"

fun joinComma :: "jsstring list \<Rightarrow> jsstring" where
  "joinComma [] = []"
| "joinComma [x] = x"
| "joinComma (x # y # ys) = x @ [0x2C] @ joinComma (y # ys)"

definition JSON_stringify :: "(jsstring \<times> jsstring) list \<Rightarrow> jsstring" where
  "JSON_stringify obj =
     [0x7B] @ joinComma (map (\<lambda>(k, v). QuoteJSONString k @ [0x3A] @ QuoteJSONString v) obj) @ [0x7D]"

subsection \<open>The page and its messages\<close>

definition cardColors :: "jsstring list" where
  "cardColors =
     [js ''red'', js ''orange'', js ''yellow'', js ''olive'', js ''green'', js ''teal'',
      js ''blue'', js ''violet'', js ''purple'', js ''pink'', js ''brown'', js ''grey'',
      js ''black'']"

definition messageKindCommand :: jsstring where
  "messageKindCommand = js ''command''"

definition messageOperationWrite :: jsstring where
  "messageOperationWrite = js ''write''"

definition messageOperationDelete :: jsstring where
  "messageOperationDelete = js ''delete''"

record message =
  kind :: jsstring
  operation :: jsstring
  data :: jsstring

text \<open>
  A card of the list, by the values its markup is built from. The page: the objects
  handed to the global \<open>send\<close>, the cards under \<open>#cards-parent\<close>, whether the modal is
  shown, and whether the form has been given the focus.
\<close>

record card =
  cardColor :: jsstring
  cardTitle :: jsstring
  cardDescription :: jsstring
  cardCommand :: jsstring
  cardOutput :: jsstring

record page =
  sent :: "message list"
  cards :: "card list"
  modalActive :: bool
  formFocused :: bool

text \<open>The values of the four inputs of the modal's form, as \<open>.val()\<close> reads them.\<close>

record form =
  inputTitle :: jsstring
  inputDescription :: jsstring
  inputCommand :: jsstring
  inputOutput :: jsstring

datatype jsresult = ReturnsFalse | ReturnsUndefined

definition send :: "message \<Rightarrow> page \<Rightarrow> page" where
  "send obj p = p\<lparr>sent := sent p @ [obj]\<rparr>"

text \<open>
  \<open>pick\<close> is the value of \<open>Math.floor(Math.random() * cardColors.length)\<close>. Reading an
  array past its end gives \<open>undefined\<close>, which string concatenation writes out.
\<close>

definition submitModalNewCommand :: "nat \<Rightarrow> jsstring \<Rightarrow> jsstring \<Rightarrow> jsstring \<Rightarrow> jsstring \<Rightarrow> page \<Rightarrow> page" where
  "submitModalNewCommand pick title description command output p =
     (let newcard =
            \<lparr>cardColor = (if pick < length cardColors then cardColors ! pick else js ''undefined''),
             cardTitle = title, cardDescription = description,
             cardCommand = command, cardOutput = output\<rparr>;
          p1 = p\<lparr>cards := cards p @ [newcard]\<rparr>
      in if modalActive p1 then p1\<lparr>modalActive := False\<rparr> else p1)"

definition sendCommand :: "jsstring \<Rightarrow> jsstring \<Rightarrow> jsstring \<Rightarrow> page \<Rightarrow> page" where
  "sendCommand kind' operation' data' p =
     (let obj = \<lparr>kind = kind', operation = operation', data = data'\<rparr> in send obj p)"

definition sendNewCommand :: "jsstring \<Rightarrow> jsstring \<Rightarrow> jsstring \<Rightarrow> jsstring \<Rightarrow> page \<Rightarrow> page" where
  "sendNewCommand title description command output p =
     (let data' = JSON_stringify
            [(js ''title'', title), (js ''description'', description),
             (js ''command'', command), (js ''output'', output)]
      in sendCommand messageKindCommand messageOperationWrite data' p)"

definition sendDeleteCommand :: "jsstring \<Rightarrow> page \<Rightarrow> page" where
  "sendDeleteCommand title p = sendCommand messageKindCommand messageOperationDelete title p"

definition validateModal :: "nat \<Rightarrow> form \<Rightarrow> page \<Rightarrow> jsresult \<times> page" where
  "validateModal pick form p =
     (if inputTitle form = []
      then (ReturnsFalse, p\<lparr>formFocused := True\<rparr>)
      else
        let p1 = sendNewCommand (inputTitle form) (inputDescription form)
                   (inputCommand form) (inputOutput form) p;
            p2 = submitModalNewCommand pick (inputTitle form) (inputDescription form)
                   (inputCommand form) (inputOutput form) p1
        in (ReturnsUndefined, p2))"

text \<open>
  The handlers the script registers. A click on a card's delete button carries the
  position of the card and the current value of its header input; the two ways of
  submitting the modal carry the form's values and the colour drawn. The handlers for
  hovering, focusing and sorting change the presentation only and are left out.
\<close>

datatype event =
    AddCommandClick
  | DeleteClick nat jsstring
  | FormSubmit nat form
  | OkClick nat form

fun handle :: "event \<Rightarrow> page \<Rightarrow> page" where
  "handle AddCommandClick p = p\<lparr>modalActive := True\<rparr>"
| "handle (DeleteClick i headerVal) p =
     (if i < length (cards p)
      then (let p1 = sendDeleteCommand headerVal p
            in p1\<lparr>cards := take i (cards p1) @ drop (Suc i) (cards p1)\<rparr>)
      else p)"
| "handle (FormSubmit pick form) p = snd (validateModal pick form p)"
| "handle (OkClick pick form) p = snd (validateModal pick form p)"

fun handleAll :: "event list \<Rightarrow> page \<Rightarrow> page" where
  "handleAll [] p = p"
| "handleAll (e # es) p = handleAll es (handle e p)"

section \<open>The hook channel\<close>

text \<open>
  Modelled from the spec: \<open>install(callback)\<close> of the Hook Channel (section 4.2). The
  sources hold the wrapper \<open>SetWindowsHookExW\<close> and not the code that calls it.
  \<open>install\<close> asks the wrapper for a global low-level keyboard hook (hook type
  \<open>WH_KEYBOARD_LL\<close>, thread 0) for the module \<open>hmod\<close> and returns the handle; it
  "fails fatally (process cannot function) if the underlying OS hook installation
  fails", a terminal startup error: on the null handle it panics.
\<close>

definition install :: "HINSTANCE \<Rightarrow> HOOKPROC \<Rightarrow> world \<Rightarrow> HHOOK outcome \<times> world" where
  "install hmod callback w =
     (case SetWindowsHookExW WH_KEYBOARD_LL callback hmod 0 w of
        (Returned hhk, w') \<Rightarrow>
          if hhk = 0 then (Panicked ''install: the keyboard hook could not be installed'', w')
          else (Returned hhk, w')
      | (Panicked msg, w') \<Rightarrow> (Panicked msg, w'))"

section \<open>The trigger matcher and the replayer\<close>

text \<open>
  The hook callback that matches triggers and replays expansions is not among the
  sources: they hold the hook's types and the wrappers it would call. Everything in
  this section follows sections 3, 4.3 and 4.4 of the specification. Three things the
  specification leaves to the platform are parameters: the translation of a virtual key
  and modifier state to a character, the maximum length the buffer tracks, and the key
  (with or without Shift) that types a character.
\<close>

text \<open>Modelled from the spec: the Command of the data model (section 3).\<close>

record Command =
  trigger :: string
  commandTitle :: string
  commandDescription :: string
  commandOutput :: string

text \<open>Modelled from the spec: the ModifierState of the matcher, Shift/Ctrl/Alt booleans (section 4.3).\<close>

record ModifierState =
  shiftDown :: bool
  ctrlDown :: bool
  altDown :: bool

text \<open>Modelled from the spec: the Keystroke Event of the data model (section 3).\<close>

record KeystrokeEvent =
  virtualKeyCode :: DWORD
  isKeyUp :: bool
  modifierSnapshot :: ModifierState
  syntheticFlag :: bool

text \<open>Modelled from the spec: the matcher's state, RollingBuffer plus ModifierState (section 4.3).\<close>

record Matcher =
  rollingBuffer :: string
  modifierState :: ModifierState

text \<open>Modelled from the spec: which keys are modifiers (Shift, Ctrl, Alt), and recording one as down or up.\<close>

definition isModifierKey :: "DWORD \<Rightarrow> bool" where
  "isModifierKey vk \<longleftrightarrow> vk = ucast VK_SHIFT \<or> vk = ucast VK_CONTROL \<or> vk = ucast VK_MENU"

definition setModifier :: "DWORD \<Rightarrow> bool \<Rightarrow> ModifierState \<Rightarrow> ModifierState" where
  "setModifier vk down ms =
     (if vk = ucast VK_SHIFT then ms\<lparr>shiftDown := down\<rparr>
      else if vk = ucast VK_CONTROL then ms\<lparr>ctrlDown := down\<rparr>
      else if vk = ucast VK_MENU then ms\<lparr>altDown := down\<rparr>
      else ms)"

text \<open>
  Modelled from the spec: the non-character control keys that invalidate the buffer,
  "arrows, Home/End, Backspace" (section 4.3).
\<close>

definition isControlKey :: "DWORD \<Rightarrow> bool" where
  "isControlKey vk \<longleftrightarrow>
     vk = ucast VK_LEFT \<or> vk = ucast VK_UP \<or> vk = ucast VK_RIGHT \<or> vk = ucast VK_DOWN
     \<or> vk = ucast VK_HOME \<or> vk = ucast VK_END \<or> vk = ucast VK_BACK"

text \<open>
  Modelled from the spec: appending to the buffer evicts "oldest characters beyond the
  maximum tracked trigger length" (section 4.3).
\<close>

definition evict :: "nat \<Rightarrow> string \<Rightarrow> string" where
  "evict maxLen buf = drop (length buf - maxLen) buf"

text \<open>
  Modelled from the spec: the lookup of "the current buffer's suffixes against the
  Command Registry (longest-match-first)" (section 4.3). The registry maps a trigger to
  its command; the result is the matched suffix with its command.
\<close>

fun longestMatch :: "(string \<rightharpoonup> Command) \<Rightarrow> string \<Rightarrow> (string \<times> Command) option" where
  "longestMatch registry [] = None"
| "longestMatch registry (c # cs) =
     (case registry (c # cs) of
        Some cmd \<Rightarrow> Some (c # cs, cmd)
      | None \<Rightarrow> longestMatch registry cs)"

text \<open>
  Modelled from the spec: the matcher's transition on one keystroke event (section
  4.3). An event flagged synthetic is ignored. A real key-down of a modifier updates the
  modifier state; of a control key, clears the buffer; of any other key, appends the
  character the key translates to, if any, and looks the buffer up: on a match the
  command is handed to the replayer and the consumed suffix is cleared. The
  specification describes the key-down transition only; here a key-up releases a
  modifier and changes nothing else.
\<close>

definition matcherStep ::
  "(DWORD \<Rightarrow> ModifierState \<Rightarrow> char option) \<Rightarrow> nat \<Rightarrow> (string \<rightharpoonup> Command) \<Rightarrow>
     KeystrokeEvent \<Rightarrow> Matcher \<Rightarrow> Command option \<times> Matcher" where
  "matcherStep translate maxLen registry ev m =
     (let vk = virtualKeyCode ev in
      if syntheticFlag ev then (None, m)
      else if isKeyUp ev then
        (None, if isModifierKey vk
               then m\<lparr>modifierState := setModifier vk False (modifierState m)\<rparr> else m)
      else if isModifierKey vk then
        (None, m\<lparr>modifierState := setModifier vk True (modifierState m)\<rparr>)
      else if isControlKey vk then (None, m\<lparr>rollingBuffer := []\<rparr>)
      else
        (case translate vk (modifierState m) of
           None \<Rightarrow> (None, m)
         | Some c \<Rightarrow>
             (let buf = evict maxLen (rollingBuffer m @ [c]) in
              case longestMatch registry buf of
                None \<Rightarrow> (None, m\<lparr>rollingBuffer := buf\<rparr>)
              | Some (suffix, cmd) \<Rightarrow>
                  (Some cmd, m\<lparr>rollingBuffer := take (length buf - length suffix) buf\<rparr>))))"

text \<open>
  Modelled from the spec: the matcher over a sequence of events, with the commands
  handed to the replayer, in order.
\<close>

fun matcherRun ::
  "(DWORD \<Rightarrow> ModifierState \<Rightarrow> char option) \<Rightarrow> nat \<Rightarrow> (string \<rightharpoonup> Command) \<Rightarrow>
     KeystrokeEvent list \<Rightarrow> Matcher \<Rightarrow> Command list \<times> Matcher" where
  "matcherRun translate maxLen registry [] m = ([], m)"
| "matcherRun translate maxLen registry (ev # evs) m =
     (case matcherStep translate maxLen registry ev m of
        (fired, m') \<Rightarrow>
          (case matcherRun translate maxLen registry evs m' of
             (rest, m'') \<Rightarrow> ((case fired of None \<Rightarrow> [] | Some cmd \<Rightarrow> [cmd]) @ rest, m'')))"

text \<open>
  Modelled from the spec: an event the replayer injects, as the hook sees it: marked
  synthetic (section 4.4).
\<close>

definition syntheticEvent :: "ModifierState \<Rightarrow> DWORD \<Rightarrow> bool \<Rightarrow> KeystrokeEvent" where
  "syntheticEvent ms vk up =
     \<lparr>virtualKeyCode = vk, isKeyUp = up, modifierSnapshot = ms, syntheticFlag = True\<rparr>"

text \<open>
  Modelled from the spec: the key chord for one character of the output, "Shift-down +
  key + Shift-up for keys requiring Shift, plain key otherwise" (section 4.4).
\<close>

definition keyChord :: "ModifierState \<Rightarrow> DWORD \<times> bool \<Rightarrow> KeystrokeEvent list" where
  "keyChord ms k =
     (case k of
        (vk, needsShift) \<Rightarrow>
          if needsShift
          then [syntheticEvent ms (ucast VK_SHIFT) False,
                syntheticEvent (ms\<lparr>shiftDown := True\<rparr>) vk False,
                syntheticEvent (ms\<lparr>shiftDown := True\<rparr>) vk True,
                syntheticEvent ms (ucast VK_SHIFT) True]
          else [syntheticEvent ms vk False, syntheticEvent ms vk True])"

text \<open>
  Modelled from the spec: the replay of a matched command (section 4.4): a key-down
  and key-up pair of Backspace for each character of the trigger, then the chord of
  each character of the output.
\<close>

definition replay :: "(char \<Rightarrow> DWORD \<times> bool) \<Rightarrow> ModifierState \<Rightarrow> Command \<Rightarrow> KeystrokeEvent list" where
  "replay keyFor ms cmd =
     concat (replicate (length (trigger cmd))
               [syntheticEvent ms (ucast VK_BACK) False, syntheticEvent ms (ucast VK_BACK) True])
     @ concat (map (\<lambda>c. keyChord ms (keyFor c)) (commandOutput cmd))"

section \<open>Properties\<close>

subsection \<open>Modifier key constructors\<close>

lemmas key_constructor_defs =
  tagInputKeyboard_def tagInputShiftDown_def tagInputShiftUp_def tagInputCtrlDown_def
  tagInputCtrlUp_def tagInputAltDown_def tagInputAltUp_def

text \<open>
  Claim C8. For Shift, Ctrl and Alt, the key-down constructor returns an event of input
  type \<open>INPUT_KEYBOARD\<close> carrying the modifier's virtual key code with the key-up bit of
  \<open>DwFlags\<close> clear, and the key-up constructor returns the key-down event with
  \<open>DwFlags\<close> replaced by \<open>KEYEVENTF_KEYUP\<close> and nothing else changed.
\<close>

theorem modifier_key_constructors:
  "InputType tagInputShiftDown = INPUT_KEYBOARD
   \<and> WVk (Ki tagInputShiftDown) = VK_SHIFT
   \<and> DwFlags (Ki tagInputShiftDown) AND KEYEVENTF_KEYUP = 0
   \<and> tagInputShiftUp = tagInputShiftDown\<lparr>Ki := (Ki tagInputShiftDown)\<lparr>DwFlags := KEYEVENTF_KEYUP\<rparr>\<rparr>
   \<and> InputType tagInputCtrlDown = INPUT_KEYBOARD
   \<and> WVk (Ki tagInputCtrlDown) = VK_CONTROL
   \<and> DwFlags (Ki tagInputCtrlDown) AND KEYEVENTF_KEYUP = 0
   \<and> tagInputCtrlUp = tagInputCtrlDown\<lparr>Ki := (Ki tagInputCtrlDown)\<lparr>DwFlags := KEYEVENTF_KEYUP\<rparr>\<rparr>
   \<and> InputType tagInputAltDown = INPUT_KEYBOARD
   \<and> WVk (Ki tagInputAltDown) = VK_MENU
   \<and> DwFlags (Ki tagInputAltDown) AND KEYEVENTF_KEYUP = 0
   \<and> tagInputAltUp = tagInputAltDown\<lparr>Ki := (Ki tagInputAltDown)\<lparr>DwFlags := KEYEVENTF_KEYUP\<rparr>\<rparr>"
  by (simp add: key_constructor_defs Let_def)

subsection \<open>The user32 wrappers\<close>

lemmas wrapper_defs = Call_def Println_def

text \<open>
  Hook removal and input submission test the procedure's result against zero, which is
  how the operating system reports that either has failed: the wrapper then writes one
  log line carrying the error and returns \<open>false\<close>, respectively \<open>0\<close>.
\<close>

lemma UnhookWindowsHookEx_zero_result:
  assumes "os w (calls w) (winDLLUser32_ProcUnhookWindowsHookEx, [Uintptr hhk]) = (0, r2, err)"
  shows "UnhookWindowsHookEx hhk w =
           (Returned False,
            w\<lparr>calls := calls w @ [(winDLLUser32_ProcUnhookWindowsHookEx, [Uintptr hhk])],
              logged := logged w @ [(''UnhookWindowsHookEx error:'', err)]\<rparr>)"
  using assms by (simp add: UnhookWindowsHookEx_def wrapper_defs)

lemma SendInput_zero_result:
  assumes "os w (calls w) (winDLLUser32_SendInput,
             [Uintptr cInputs, Pointer [pInputs], Uintptr cbSize]) = (0, r2, err)"
  shows "SendInput cInputs pInputs cbSize w =
           (Returned 0,
            w\<lparr>calls := calls w @ [(winDLLUser32_SendInput, [Uintptr cInputs, Pointer [pInputs], Uintptr cbSize])],
              logged := logged w @ [(''SendInput error:'', err)]\<rparr>)"
  using assms by (simp add: SendInput_def wrapper_defs)

text \<open>
  Claim C1. \<open>SendInput\<close> calls the operating system once and returns its count. The
  claim that the number of structures delivered equals the requested count \<open>cInputs\<close>
  does not hold of the code: the parameter \<open>pInputs\<close> is one structure passed by value
  (\<open>LPINPUT\<close> is the struct type itself), and the pointer handed over is the address of
  that one structure, while \<open>cInputs\<close> goes to the operating system unchanged. With a
  requested count of 2 the single call made announces two structures and delivers one.
\<close>

theorem SendInput_two_requested_one_structure:
  "calls (snd (SendInput 2 pInputs cbSize w))
     = calls w @ [(winDLLUser32_SendInput, [Uintptr 2, Pointer [pInputs], Uintptr cbSize])]
   \<and> length [pInputs] = 1"
  by (simp add: SendInput_def wrapper_defs split: prod.splits)

text \<open>
  Claim C3. A failed hook removal and a failed input submission are logged and
  returned as \<open>false\<close> and \<open>0\<close> (the two lemmas above). Message retrieval is not:
  the operating system reports an error of \<open>GetMessageW\<close> as the result \<open>-1\<close> (the
  result \<open>0\<close> is the quit message), and the wrapper tests for \<open>0\<close> only. On the result
  \<open>-1\<close> it returns \<open>true\<close> and writes no log line.
\<close>

theorem GetMessageW_error_not_reported:
  assumes "os w (calls w) (winDLLUser32_GetMessageW,
             [Uintptr lpMsg, Uintptr hWnd, Uintptr wMsgFilterMin, Uintptr wMsgFilterMax]) = (- 1, r2, err)"
  shows "GetMessageW lpMsg hWnd wMsgFilterMin wMsgFilterMax w =
           (Returned True,
            w\<lparr>calls := calls w @ [(winDLLUser32_GetMessageW,
                 [Uintptr lpMsg, Uintptr hWnd, Uintptr wMsgFilterMin, Uintptr wMsgFilterMax])]\<rparr>)"
  using assms by (simp add: GetMessageW_def wrapper_defs)

theorem GetMessageW_error_not_reported_witness:
  "GetMessageW 0 5 0 0 \<lparr>os = (\<lambda>h c. (- 1, 0, 1400)), calls = [], logged = [], load_error = None\<rparr>
     = (Returned True,
        \<lparr>os = (\<lambda>h c. (- 1, 0, 1400)),
         calls = [(winDLLUser32_GetMessageW, [Uintptr 0, Uintptr 5, Uintptr 0, Uintptr 0])],
         logged = [], load_error = None\<rparr>)"
  using GetMessageW_error_not_reported
    [of "\<lparr>os = (\<lambda>h c. (- 1, 0, 1400)), calls = [], logged = [], load_error = None\<rparr>" 0 5 0 0 0 1400]
  by simp

text \<open>
  \<open>SetWindowsHookExW\<close> makes one call to the operating system and returns its result
  unchanged as the handle; it does not look at the result and writes no log line. A
  failed installation reaches its caller as the null handle.
\<close>

lemma SetWindowsHookExW_returns_os_result:
  assumes "os w (calls w) (winDLLUser32_ProcSetWindowsHookExW,
             [Uintptr idHook, NewCallback lpfn, Uintptr hmod, Uintptr (ucast dwThreadID)]) = (result, r2, err)"
  shows "SetWindowsHookExW idHook lpfn hmod dwThreadID w =
           (Returned result,
            w\<lparr>calls := calls w @ [(winDLLUser32_ProcSetWindowsHookExW,
                 [Uintptr idHook, NewCallback lpfn, Uintptr hmod, Uintptr (ucast dwThreadID)])]\<rparr>)"
  using assms by (simp add: SetWindowsHookExW_def wrapper_defs)

text \<open>
  Claim C4. When the operating system's hook installation fails, so that
  \<open>SetWindowsHookExW\<close> returns the null handle, the install operation fails fatally: it
  panics, and no handle, valid or not, is returned to continue with.
\<close>

theorem install_fails_fatally_on_null_handle:
  assumes "os w (calls w) (winDLLUser32_ProcSetWindowsHookExW,
             [Uintptr WH_KEYBOARD_LL, NewCallback callback, Uintptr hmod, Uintptr 0]) = (0, r2, err)"
  shows "fst (SetWindowsHookExW WH_KEYBOARD_LL callback hmod 0 w) = Returned 0
       \<and> (\<exists>msg. fst (install hmod callback w) = Panicked msg)
       \<and> (\<forall>hhk. fst (install hmod callback w) \<noteq> Returned hhk)"
proof -
  have "SetWindowsHookExW WH_KEYBOARD_LL callback hmod 0 w =
          (Returned 0,
           w\<lparr>calls := calls w @ [(winDLLUser32_ProcSetWindowsHookExW,
                [Uintptr WH_KEYBOARD_LL, NewCallback callback, Uintptr hmod, Uintptr 0])]\<rparr>)"
    using SetWindowsHookExW_returns_os_result [of w WH_KEYBOARD_LL callback hmod 0 0 r2 err] assms
    by simp
  then show ?thesis by (simp add: install_def)
qed

theorem install_fails_fatally_on_null_handle_witness:
  "install 0 (\<lambda>nCode wParam lParam. 0)
      \<lparr>os = (\<lambda>h c. (0, 0, 1428)), calls = [], logged = [], load_error = None\<rparr>
     = (Panicked ''install: the keyboard hook could not be installed'',
        \<lparr>os = (\<lambda>h c. (0, 0, 1428)),
         calls = [(winDLLUser32_ProcSetWindowsHookExW,
                   [Uintptr 13, NewCallback (\<lambda>nCode wParam lParam. 0), Uintptr 0, Uintptr 0])],
         logged = [], load_error = None\<rparr>)
   \<and> install 0 (\<lambda>nCode wParam lParam. 0)
      \<lparr>os = (\<lambda>h c. (6291, 0, 0)), calls = [], logged = [], load_error = None\<rparr>
     = (Returned 6291,
        \<lparr>os = (\<lambda>h c. (6291, 0, 0)),
         calls = [(winDLLUser32_ProcSetWindowsHookExW,
                   [Uintptr 13, NewCallback (\<lambda>nCode wParam lParam. 0), Uintptr 0, Uintptr 0])],
         logged = [], load_error = None\<rparr>)"
  using install_fails_fatally_on_null_handle
    [of "\<lparr>os = (\<lambda>h c. (0, 0, 1428)), calls = [], logged = [], load_error = None\<rparr>"
        "\<lambda>nCode wParam lParam. 0" 0 0 1428]
  by (simp add: install_def SetWindowsHookExW_def wrapper_defs WH_KEYBOARD_LL_def)

text \<open>
  Claim C5. When loading \<open>user32.dll\<close> gives an error, \<open>LoadDLLs\<close> panics, with the
  message \<open>LoadDLL error\<close> followed by the error's text; it does not return.
\<close>

theorem LoadDLLs_panics_on_load_failure:
  "load_error w = Some err \<Longrightarrow> LoadDLLs w = (Panicked (''LoadDLL error'' @ err), w)"
  by (simp add: LoadDLLs_def)

theorem LoadDLLs_panics_on_load_failure_witness:
  "LoadDLLs \<lparr>os = (\<lambda>h c. (0, 0, 0)), calls = [], logged = [], load_error = Some '': not found''\<rparr>
     = (Panicked ''LoadDLL error: not found'',
        \<lparr>os = (\<lambda>h c. (0, 0, 0)), calls = [], logged = [], load_error = Some '': not found''\<rparr>)"
  using LoadDLLs_panics_on_load_failure
    [of "\<lparr>os = (\<lambda>h c. (0, 0, 0)), calls = [], logged = [], load_error = Some '': not found''\<rparr>" "'': not found''"]
  by simp

text \<open>
  Claim C9. \<open>GetMessageW\<close> returns \<open>false\<close> exactly when the operating system's result
  is zero, and writes its log line exactly then. Every other result is returned as
  \<open>true\<close> with nothing logged; that includes the result \<open>-1\<close>.
\<close>

theorem GetMessageW_false_iff_zero:
  assumes "os w (calls w) (winDLLUser32_GetMessageW,
             [Uintptr lpMsg, Uintptr hWnd, Uintptr wMsgFilterMin, Uintptr wMsgFilterMax]) = (res, r2, err)"
  shows "fst (GetMessageW lpMsg hWnd wMsgFilterMin wMsgFilterMax w) = Returned (res \<noteq> 0)
       \<and> logged (snd (GetMessageW lpMsg hWnd wMsgFilterMin wMsgFilterMax w))
           = (if res = 0 then logged w @ [(''GetMessageW error:'', err)] else logged w)
       \<and> (res = - 1 \<longrightarrow>
            fst (GetMessageW lpMsg hWnd wMsgFilterMin wMsgFilterMax w) = Returned True
            \<and> logged (snd (GetMessageW lpMsg hWnd wMsgFilterMin wMsgFilterMax w)) = logged w)"
  using assms by (simp add: GetMessageW_def wrapper_defs)

theorem GetMessageW_false_iff_zero_witness:
  "fst (GetMessageW 0 0 0 0 \<lparr>os = (\<lambda>h c. (- 1, 0, 1400)), calls = [], logged = [], load_error = None\<rparr>)
     = Returned True
   \<and> logged (snd (GetMessageW 0 0 0 0 \<lparr>os = (\<lambda>h c. (- 1, 0, 1400)), calls = [], logged = [], load_error = None\<rparr>)) = []
   \<and> fst (GetMessageW 0 0 0 0 \<lparr>os = (\<lambda>h c. (0, 0, 0)), calls = [], logged = [], load_error = None\<rparr>)
     = Returned False
   \<and> logged (snd (GetMessageW 0 0 0 0 \<lparr>os = (\<lambda>h c. (0, 0, 0)), calls = [], logged = [], load_error = None\<rparr>))
     = [(''GetMessageW error:'', 0)]"
  using GetMessageW_false_iff_zero
     [of "\<lparr>os = (\<lambda>h c. (- 1, 0, 1400)), calls = [], logged = [], load_error = None\<rparr>" 0 0 0 0 "- 1" 0 1400]
    GetMessageW_false_iff_zero
     [of "\<lparr>os = (\<lambda>h c. (0, 0, 0)), calls = [], logged = [], load_error = None\<rparr>" 0 0 0 0 0 0 0]
  by simp

text \<open>
  Claim C10. \<open>SendInput\<close> returns the operating system's result, so it returns \<open>0\<close>
  exactly when that result is \<open>0\<close>. The error value has no part in what is returned:
  it appears in the log line, written when the result is \<open>0\<close>, and nowhere else.
\<close>

theorem SendInput_zero_iff:
  assumes "os w (calls w) (winDLLUser32_SendInput,
             [Uintptr cInputs, Pointer [pInputs], Uintptr cbSize]) = (result, r2, err)"
  shows "fst (SendInput cInputs pInputs cbSize w) = Returned result
       \<and> (fst (SendInput cInputs pInputs cbSize w) = Returned 0 \<longleftrightarrow> result = 0)
       \<and> logged (snd (SendInput cInputs pInputs cbSize w))
           = (if result = 0 then logged w @ [(''SendInput error:'', err)] else logged w)"
  using assms by (simp add: SendInput_def wrapper_defs)

theorem SendInput_zero_iff_witness:
  "fst (SendInput 1 tagInputShiftDown 40
          \<lparr>os = (\<lambda>h c. (0, 0, 5)), calls = [], logged = [], load_error = None\<rparr>) = Returned 0
   \<and> logged (snd (SendInput 1 tagInputShiftDown 40
          \<lparr>os = (\<lambda>h c. (0, 0, 5)), calls = [], logged = [], load_error = None\<rparr>))
       = [(''SendInput error:'', 5)]
   \<and> fst (SendInput 1 tagInputShiftDown 40
          \<lparr>os = (\<lambda>h c. (0, 0, 0)), calls = [], logged = [], load_error = None\<rparr>) = Returned 0
   \<and> fst (SendInput 1 tagInputShiftDown 40
          \<lparr>os = (\<lambda>h c. (1, 0, 0)), calls = [], logged = [], load_error = None\<rparr>) = Returned 1"
  using SendInput_zero_iff
     [of "\<lparr>os = (\<lambda>h c. (0, 0, 5)), calls = [], logged = [], load_error = None\<rparr>" 1 tagInputShiftDown 40 0 0 5]
    SendInput_zero_iff
     [of "\<lparr>os = (\<lambda>h c. (0, 0, 0)), calls = [], logged = [], load_error = None\<rparr>" 1 tagInputShiftDown 40 0 0 0]
    SendInput_zero_iff
     [of "\<lparr>os = (\<lambda>h c. (1, 0, 0)), calls = [], logged = [], load_error = None\<rparr>" 1 tagInputShiftDown 40 1 0 0]
  by simp

subsection \<open>The page script: messages to the registry\<close>

lemmas page_defs = sendNewCommand_def sendDeleteCommand_def sendCommand_def send_def
  submitModalNewCommand_def validateModal_def

lemmas json_defs = JSON_stringify_def QuoteJSONString_def quoteUnit_def UnicodeEscape_def
  hexDigit_def isLeadingSurrogate_def isTrailingSurrogate_def js_def
  messageKindCommand_def messageOperationWrite_def messageOperationDelete_def

subsection \<open>\<open>JSON.stringify\<close> keeps the fields apart\<close>

text \<open>
  The text \<open>JSON.stringify\<close> produces for an object of four string properties
  determines the four strings: quoting a string is injective, and a quoted string ends
  at its first unescaped quotation mark. First the digits of a \<open>\u\<close> escape.
\<close>

lemma F_mask: "(0xF :: 16 word) = mask 4"
  by (simp add: mask_eq_exp_minus_1)

lemma nibble_bits:
  fixes c c' :: "16 word"
  assumes "drop_bit k c AND 0xF = drop_bit k c' AND 0xF" and "i < 4"
  shows "bit c (k + i) = bit c' (k + i)"
proof -
  have "bit (drop_bit k c AND mask 4) i = bit (drop_bit k c' AND mask 4) i"
    using assms(1) by (simp add: F_mask)
  then show ?thesis
    using assms(2) by (simp add: bit_simps add.commute)
qed

lemma nibbles_eq:
  fixes c c' :: "16 word"
  assumes "drop_bit 12 c AND 0xF = drop_bit 12 c' AND 0xF"
      "drop_bit 8 c AND 0xF = drop_bit 8 c' AND 0xF"
      "drop_bit 4 c AND 0xF = drop_bit 4 c' AND 0xF"
      "c AND 0xF = c' AND 0xF"
  shows "c = c'"
proof (rule bit_word_eqI)
  fix n assume "n < LENGTH(16)"
  then have n: "n < 16" by simp
  have low: "drop_bit 0 c AND 0xF = drop_bit 0 c' AND 0xF"
    using assms(4) by simp
  consider "n < 4" | "4 \<le> n" "n < 8" | "8 \<le> n" "n < 12" | "12 \<le> n" "n < 16"
    using n by linarith
  then show "bit c n = bit c' n"
  proof cases
    case 1
    then show ?thesis using nibble_bits [OF low, of n] by simp
  next
    case 2
    then show ?thesis using nibble_bits [OF assms(3), of "n - 4"] by simp
  next
    case 3
    then show ?thesis using nibble_bits [OF assms(2), of "n - 8"] by simp
  next
    case 4
    then show ?thesis using nibble_bits [OF assms(1), of "n - 12"] by simp
  qed
qed

lemma hexDigit_cases:
  fixes d :: "16 word"
  assumes "d \<le> 15"
  shows "d \<in> {0, 1, 2, 3, 4, 5, 6, 7, 8, 9, 10, 11, 12, 13, 14, 15}"
proof -
  have "unat d < 16" using assms by (simp add: word_le_nat_alt)
  then have "unat d \<in> {0, 1, 2, 3, 4, 5, 6, 7, 8, 9, 10, 11, 12, 13, 14, 15}"
    by simp arith
  then have "word_of_nat (unat d) \<in> ((word_of_nat ` {0, 1, 2, 3, 4, 5, 6, 7, 8, 9, 10, 11, 12, 13, 14, 15}) :: 16 word set)"
    by (rule imageI)
  then show ?thesis by simp
qed

lemma hexDigit_inj:
  fixes d e :: "16 word"
  assumes "d \<le> 15" "e \<le> 15" "hexDigit d = hexDigit e"
  shows "d = e"
  using hexDigit_cases [OF assms(1)] hexDigit_cases [OF assms(2)] assms(3)
  unfolding hexDigit_def by (elim insertE emptyE; simp)


lemma nibble_le: "(x :: 16 word) AND 0xF \<le> 15"
  by (rule word_and_le1)

lemma UnicodeEscape_inj:
  assumes "UnicodeEscape c @ r = UnicodeEscape c' @ r'"
  shows "c = c' \<and> r = r'"
proof -
  from assms have d: "hexDigit (drop_bit 12 c AND 0xF) = hexDigit (drop_bit 12 c' AND 0xF)"
      "hexDigit (drop_bit 8 c AND 0xF) = hexDigit (drop_bit 8 c' AND 0xF)"
      "hexDigit (drop_bit 4 c AND 0xF) = hexDigit (drop_bit 4 c' AND 0xF)"
      "hexDigit (c AND 0xF) = hexDigit (c' AND 0xF)"
    and r: "r = r'"
    by (simp_all add: UnicodeEscape_def)
  have "c = c'"
    by (rule nibbles_eq) (rule hexDigit_inj [OF nibble_le nibble_le], rule d)+
  with r show ?thesis by simp
qed

lemma UnicodeEscape_head: "\<exists>xs. UnicodeEscape c = 0x5C # 0x75 # xs"
  by (simp add: UnicodeEscape_def)

lemma quoteUnit_plain:
  "\<lbrakk>c \<noteq> 0x08; c \<noteq> 0x09; c \<noteq> 0x0A; c \<noteq> 0x0C; c \<noteq> 0x0D; c \<noteq> 0x22; c \<noteq> 0x5C;
    \<not> c < 0x20; \<not> isLeadingSurrogate c; \<not> isTrailingSurrogate c\<rbrakk> \<Longrightarrow> quoteUnit c = [c]"
  by (simp add: quoteUnit_def)

lemma quoteUnit_cases:
  obtains (plain) "quoteUnit c = [c]" "c \<noteq> 0x22" "c \<noteq> 0x5C"
      "\<not> isLeadingSurrogate c" "\<not> isTrailingSurrogate c"
  | (short) x where "quoteUnit c = [0x5C, x]" "x \<noteq> 0x75"
      "(x, c) \<in> {(0x62, 0x08), (0x74, 0x09), (0x6E, 0x0A), (0x66, 0x0C), (0x72, 0x0D), (0x22, 0x22), (0x5C, 0x5C)}"
  | (unicode) "quoteUnit c = UnicodeEscape c"
proof -
  consider "c = 0x08" | "c = 0x09" | "c = 0x0A" | "c = 0x0C" | "c = 0x0D" | "c = 0x22" | "c = 0x5C"
    | "c \<noteq> 0x08" "c \<noteq> 0x09" "c \<noteq> 0x0A" "c \<noteq> 0x0C" "c \<noteq> 0x0D" "c \<noteq> 0x22" "c \<noteq> 0x5C"
      "c < 0x20 \<or> isLeadingSurrogate c \<or> isTrailingSurrogate c"
    | "c \<noteq> 0x08" "c \<noteq> 0x09" "c \<noteq> 0x0A" "c \<noteq> 0x0C" "c \<noteq> 0x0D" "c \<noteq> 0x22" "c \<noteq> 0x5C"
      "\<not> c < 0x20" "\<not> isLeadingSurrogate c" "\<not> isTrailingSurrogate c"
    by blast
  then show thesis
  proof cases
    case 1 then show ?thesis by (intro short [of "0x62"]) (simp_all add: quoteUnit_def)
  next
    case 2 then show ?thesis by (intro short [of "0x74"]) (simp_all add: quoteUnit_def)
  next
    case 3 then show ?thesis by (intro short [of "0x6E"]) (simp_all add: quoteUnit_def)
  next
    case 4 then show ?thesis by (intro short [of "0x66"]) (simp_all add: quoteUnit_def)
  next
    case 5 then show ?thesis by (intro short [of "0x72"]) (simp_all add: quoteUnit_def)
  next
    case 6 then show ?thesis by (intro short [of "0x22"]) (simp_all add: quoteUnit_def)
  next
    case 7 then show ?thesis by (intro short [of "0x5C"]) (simp_all add: quoteUnit_def)
  next
    case 8 then show ?thesis by (intro unicode) (simp add: quoteUnit_def)
  next
    case 9 then show ?thesis by (intro plain) (simp_all add: quoteUnit_def)
  qed
qed

lemma quoteUnit_inj:
  assumes eq: "quoteUnit c @ r = quoteUnit c' @ r'"
  shows "c = c' \<and> r = r'"
proof (cases c rule: quoteUnit_cases)
  case plain
  show ?thesis
  proof (cases c' rule: quoteUnit_cases)
    case plain': plain
    with plain eq show ?thesis by simp
  next
    case short
    with plain eq show ?thesis by simp
  next
    case unicode
    with plain eq UnicodeEscape_head [of c'] show ?thesis by auto
  qed
next
  case (short x)
  show ?thesis
  proof (cases c' rule: quoteUnit_cases)
    case plain
    with short eq show ?thesis by simp
  next
    case short': (short x')
    from short(1) short'(1) eq have "x = x'" "r = r'" by simp_all
    with short(3) short'(3) show ?thesis by auto
  next
    case unicode
    with short eq UnicodeEscape_head [of c'] show ?thesis by auto
  qed
next
  case unicode
  show ?thesis
  proof (cases c' rule: quoteUnit_cases)
    case plain
    with unicode eq UnicodeEscape_head [of c] show ?thesis by auto
  next
    case short
    with unicode eq UnicodeEscape_head [of c] show ?thesis by auto
  next
    case unicode': unicode
    with unicode eq show ?thesis by (simp add: UnicodeEscape_inj)
  qed
qed

lemma quoteUnit_head:
  "\<exists>x xs. quoteUnit c = x # xs \<and> x \<noteq> 0x22 \<and> (x = 0x5C \<or> x = c \<and> \<not> isLeadingSurrogate c)"
  using UnicodeEscape_head [of c] by (cases c rule: quoteUnit_cases) auto

lemma quoteUnits_Cons:
  "quoteUnits (c # cs) =
     (if isLeadingSurrogate c \<and> cs \<noteq> [] \<and> isTrailingSurrogate (hd cs)
      then c # hd cs # quoteUnits (tl cs) else quoteUnit c @ quoteUnits cs)"
  by (cases cs) simp_all

lemma leading_not_special: "isLeadingSurrogate c \<Longrightarrow> c \<noteq> 0x22 \<and> c \<noteq> 0x5C"
  by (auto simp: isLeadingSurrogate_def)

lemma quoteUnits_head:
  "s \<noteq> [] \<Longrightarrow> \<exists>x xs. quoteUnits s = x # xs \<and> x \<noteq> 0x22"
proof (cases s)
  case Nil
  moreover assume "s \<noteq> []"
  ultimately show ?thesis by simp
next
  case (Cons c cs)
  show ?thesis
    using quoteUnit_head [of c] leading_not_special [of c]
    unfolding Cons quoteUnits_Cons by auto
qed

lemma pair_not_unit:
  assumes "isLeadingSurrogate c"
  shows "c # ys \<noteq> quoteUnit c' @ zs"
proof
  assume eq: "c # ys = quoteUnit c' @ zs"
  obtain x xs where x: "quoteUnit c' = x # xs" "x = 0x5C \<or> x = c' \<and> \<not> isLeadingSurrogate c'"
    using quoteUnit_head [of c'] by blast
  from eq x(1) have "c = x" by simp
  with x(2) assms leading_not_special [of c] show False by auto
qed

lemma quoteUnits_inj:
  "quoteUnits s @ 0x22 # r = quoteUnits s' @ 0x22 # r' \<Longrightarrow> s = s' \<and> r = r'"
proof (induction "length s" arbitrary: s s' rule: less_induct)
  case less
  note eq = less.prems
  show ?case
  proof (cases s)
    case Nil
    show ?thesis
    proof (cases "s' = []")
      case True
      with Nil eq show ?thesis by simp
    next
      case False
      then obtain x xs where "quoteUnits s' = x # xs" "x \<noteq> 0x22"
        using quoteUnits_head by blast
      with Nil eq show ?thesis by simp
    qed
  next
    case (Cons c cs)
    show ?thesis
    proof (cases s')
      case Nil
      obtain x xs where "quoteUnits s = x # xs" "x \<noteq> 0x22"
        using quoteUnits_head [of s] Cons by blast
      with Nil eq show ?thesis by simp
    next
      case Cons': (Cons c' cs')
      let ?P = "isLeadingSurrogate c \<and> cs \<noteq> [] \<and> isTrailingSurrogate (hd cs)"
      let ?P' = "isLeadingSurrogate c' \<and> cs' \<noteq> [] \<and> isTrailingSurrogate (hd cs')"
      show ?thesis
      proof (cases ?P)
        case P: True
        show ?thesis
        proof (cases ?P')
          case P': True
          from eq P P' have heads: "c = c'" "hd cs = hd cs'"
            and rest: "quoteUnits (tl cs) @ 0x22 # r = quoteUnits (tl cs') @ 0x22 # r'"
            unfolding Cons Cons' quoteUnits_Cons by simp_all
          have "length (tl cs) < length s" using Cons by simp
          from less.hyps [OF this rest] have "tl cs = tl cs'" "r = r'" by simp_all
          moreover have "cs = hd cs # tl cs" "cs' = hd cs' # tl cs'" using P P' by simp_all
          ultimately show ?thesis using heads Cons Cons' by metis
        next
          case P': False
          from eq P P' have "c # (hd cs # quoteUnits (tl cs) @ 0x22 # r)
              = quoteUnit c' @ (quoteUnits cs' @ 0x22 # r')"
            unfolding Cons Cons' quoteUnits_Cons by simp
          with pair_not_unit P show ?thesis by blast
        qed
      next
        case P: False
        show ?thesis
        proof (cases ?P')
          case P': True
          from eq P P' have "c' # (hd cs' # quoteUnits (tl cs') @ 0x22 # r')
              = quoteUnit c @ (quoteUnits cs @ 0x22 # r)"
            unfolding Cons Cons' quoteUnits_Cons by simp
          with pair_not_unit P' show ?thesis by blast
        next
          case P': False
          from eq P P' have "quoteUnit c @ (quoteUnits cs @ 0x22 # r)
              = quoteUnit c' @ (quoteUnits cs' @ 0x22 # r')"
            unfolding Cons Cons' quoteUnits_Cons by simp
          then have c: "c = c'" and rest: "quoteUnits cs @ 0x22 # r = quoteUnits cs' @ 0x22 # r'"
            using quoteUnit_inj by blast+
          have "length cs < length s" using Cons by simp
          from less.hyps [OF this rest] c show ?thesis using Cons Cons' by simp
        qed
      qed
    qed
  qed
qed

lemma QuoteJSONString_inj:
  "QuoteJSONString s @ r = QuoteJSONString s' @ r' \<Longrightarrow> s = s' \<and> r = r'"
  using quoteUnits_inj [of s r s' r'] by (simp add: QuoteJSONString_def)

lemma JSON_stringify_fields_inj:
  assumes "JSON_stringify [(k1, a), (k2, b), (k3, c), (k4, d)]
         = JSON_stringify [(k1, a'), (k2, b'), (k3, c'), (k4, d')]"
  shows "a = a' \<and> b = b' \<and> c = c' \<and> d = d'"
proof -
  let ?Q = QuoteJSONString
  from assms have e1: "?Q k1 @ (0x3A # ?Q a @ 0x2C # ?Q k2 @ 0x3A # ?Q b @ 0x2C # ?Q k3 @ 0x3A # ?Q c @ 0x2C # ?Q k4 @ 0x3A # ?Q d @ [0x7D])
      = ?Q k1 @ (0x3A # ?Q a' @ 0x2C # ?Q k2 @ 0x3A # ?Q b' @ 0x2C # ?Q k3 @ 0x3A # ?Q c' @ 0x2C # ?Q k4 @ 0x3A # ?Q d' @ [0x7D])"
    by (simp add: JSON_stringify_def)
  then have "?Q a @ (0x2C # ?Q k2 @ 0x3A # ?Q b @ 0x2C # ?Q k3 @ 0x3A # ?Q c @ 0x2C # ?Q k4 @ 0x3A # ?Q d @ [0x7D])
      = ?Q a' @ (0x2C # ?Q k2 @ 0x3A # ?Q b' @ 0x2C # ?Q k3 @ 0x3A # ?Q c' @ 0x2C # ?Q k4 @ 0x3A # ?Q d' @ [0x7D])"
    by simp
  from QuoteJSONString_inj [OF this]
  have a: "a = a'" and "?Q b @ (0x2C # ?Q k3 @ 0x3A # ?Q c @ 0x2C # ?Q k4 @ 0x3A # ?Q d @ [0x7D])
      = ?Q b' @ (0x2C # ?Q k3 @ 0x3A # ?Q c' @ 0x2C # ?Q k4 @ 0x3A # ?Q d' @ [0x7D])"
    by simp_all
  from QuoteJSONString_inj [OF this(2)]
  have b: "b = b'" and "?Q c @ (0x2C # ?Q k4 @ 0x3A # ?Q d @ [0x7D]) = ?Q c' @ (0x2C # ?Q k4 @ 0x3A # ?Q d' @ [0x7D])"
    by simp_all
  from QuoteJSONString_inj [OF this(2)]
  have c: "c = c'" and "?Q d @ [0x7D] = ?Q d' @ [0x7D]"
    by simp_all
  from QuoteJSONString_inj [OF this(2)] have "d = d'" by simp
  with a b c show ?thesis by simp
qed

lemma sent_sendNewCommand:
  "sent (sendNewCommand t d c out p) =
     sent p @ [\<lparr>kind = messageKindCommand, operation = messageOperationWrite,
                data = JSON_stringify [(js ''title'', t), (js ''description'', d),
                                       (js ''command'', c), (js ''output'', out)]\<rparr>]"
  by (simp add: page_defs Let_def)

lemma sent_sendDeleteCommand:
  "sent (sendDeleteCommand t p) =
     sent p @ [\<lparr>kind = messageKindCommand, operation = messageOperationDelete, data = t\<rparr>]"
  by (simp add: page_defs Let_def)

lemma sent_validateModal:
  "sent (snd (validateModal pick f p)) =
     (if inputTitle f = [] then sent p
      else sent p @ [\<lparr>kind = messageKindCommand, operation = messageOperationWrite,
                data = JSON_stringify [(js ''title'', inputTitle f), (js ''description'', inputDescription f),
                                       (js ''command'', inputCommand f), (js ''output'', inputOutput f)]\<rparr>])"
  by (simp add: page_defs Let_def)

lemma sent_handle:
  "sent (handle e p) = sent p @
     (case e of
        AddCommandClick \<Rightarrow> []
      | DeleteClick i v \<Rightarrow>
          (if i < length (cards p)
           then [\<lparr>kind = messageKindCommand, operation = messageOperationDelete, data = v\<rparr>]
           else [])
      | FormSubmit pick f \<Rightarrow>
          (if inputTitle f = [] then []
           else [\<lparr>kind = messageKindCommand, operation = messageOperationWrite,
                data = JSON_stringify [(js ''title'', inputTitle f), (js ''description'', inputDescription f),
                                       (js ''command'', inputCommand f), (js ''output'', inputOutput f)]\<rparr>])
      | OkClick pick f \<Rightarrow>
          (if inputTitle f = [] then []
           else [\<lparr>kind = messageKindCommand, operation = messageOperationWrite,
                data = JSON_stringify [(js ''title'', inputTitle f), (js ''description'', inputDescription f),
                                       (js ''command'', inputCommand f), (js ''output'', inputOutput f)]\<rparr>]))"
  by (cases e) (simp_all add: sent_validateModal sent_sendDeleteCommand Let_def)

lemma handle_new_messages:
  "\<exists>hs. sent (handle e p) = sent p @ hs
     \<and> (\<forall>m\<in>set hs.
           kind m = messageKindCommand
           \<and> (operation m = messageOperationWrite
                \<and> (\<exists>pick f. (e = FormSubmit pick f \<or> e = OkClick pick f)
                      \<and> data m = JSON_stringify
                           [(js ''title'', inputTitle f), (js ''description'', inputDescription f),
                            (js ''command'', inputCommand f), (js ''output'', inputOutput f)])
              \<or> operation m = messageOperationDelete
                \<and> (\<exists>i v. e = DeleteClick i v \<and> data m = v)))"
  using sent_handle [of e p] by (cases e) (auto simp del: handle.simps)

lemma sent_handleAll:
  "\<exists>ms. sent (handleAll es p) = sent p @ ms
     \<and> (\<forall>m\<in>set ms.
           kind m = messageKindCommand
           \<and> (operation m = messageOperationWrite
                \<and> (\<exists>pick f. (FormSubmit pick f \<in> set es \<or> OkClick pick f \<in> set es)
                      \<and> data m = JSON_stringify
                           [(js ''title'', inputTitle f), (js ''description'', inputDescription f),
                            (js ''command'', inputCommand f), (js ''output'', inputOutput f)])
              \<or> operation m = messageOperationDelete
                \<and> (\<exists>i v. DeleteClick i v \<in> set es \<and> data m = v)))"
proof (induction es arbitrary: p)
  case Nil
  then show ?case by simp
next
  case (Cons e es)
  obtain ms where ms: "sent (handleAll es (handle e p)) = sent (handle e p) @ ms"
    and tagged: "\<forall>m\<in>set ms.
           kind m = messageKindCommand
           \<and> (operation m = messageOperationWrite
                \<and> (\<exists>pick f. (FormSubmit pick f \<in> set es \<or> OkClick pick f \<in> set es)
                      \<and> data m = JSON_stringify
                           [(js ''title'', inputTitle f), (js ''description'', inputDescription f),
                            (js ''command'', inputCommand f), (js ''output'', inputOutput f)])
              \<or> operation m = messageOperationDelete
                \<and> (\<exists>i v. DeleteClick i v \<in> set es \<and> data m = v))"
    using Cons.IH [of "handle e p"] by blast
  obtain hs where hs: "sent (handle e p) = sent p @ hs"
    and first: "\<forall>m\<in>set hs.
           kind m = messageKindCommand
           \<and> (operation m = messageOperationWrite
                \<and> (\<exists>pick f. (e = FormSubmit pick f \<or> e = OkClick pick f)
                      \<and> data m = JSON_stringify
                           [(js ''title'', inputTitle f), (js ''description'', inputDescription f),
                            (js ''command'', inputCommand f), (js ''output'', inputOutput f)])
              \<or> operation m = messageOperationDelete
                \<and> (\<exists>i v. e = DeleteClick i v \<and> data m = v))"
    using handle_new_messages [of e p] by blast
  have "sent (handleAll (e # es) p) = sent p @ (hs @ ms)"
    using ms hs by simp
  moreover have "\<forall>m\<in>set (hs @ ms).
           kind m = messageKindCommand
           \<and> (operation m = messageOperationWrite
                \<and> (\<exists>pick f. (FormSubmit pick f \<in> set (e # es) \<or> OkClick pick f \<in> set (e # es))
                      \<and> data m = JSON_stringify
                           [(js ''title'', inputTitle f), (js ''description'', inputDescription f),
                            (js ''command'', inputCommand f), (js ''output'', inputOutput f)])
              \<or> operation m = messageOperationDelete
                \<and> (\<exists>i v. DeleteClick i v \<in> set (e # es) \<and> data m = v))"
  proof
    fix m assume "m \<in> set (hs @ ms)"
    then consider "m \<in> set hs" | "m \<in> set ms" by auto
    then show "kind m = messageKindCommand
           \<and> (operation m = messageOperationWrite
                \<and> (\<exists>pick f. (FormSubmit pick f \<in> set (e # es) \<or> OkClick pick f \<in> set (e # es))
                      \<and> data m = JSON_stringify
                           [(js ''title'', inputTitle f), (js ''description'', inputDescription f),
                            (js ''command'', inputCommand f), (js ''output'', inputOutput f)])
              \<or> operation m = messageOperationDelete
                \<and> (\<exists>i v. DeleteClick i v \<in> set (e # es) \<and> data m = v))"
    proof cases
      case 1
      with first show ?thesis by (simp only: list.set) blast
    next
      case 2
      with tagged show ?thesis by (simp only: list.set) blast
    qed
  qed
  ultimately show ?case by blast
qed

text \<open>
  Claim C6. \<open>sendNewCommand\<close> hands \<open>send\<close> one message of kind \<open>command\<close> and
  operation \<open>write\<close> whose data is the JSON text of the four fields title, description,
  command and output; \<open>sendDeleteCommand\<close> hands it one message of kind \<open>command\<close> and
  operation \<open>delete\<close> whose data is the title string itself. Whatever the user does on
  the page, every message sent is one of these two: a write message of a form that was
  submitted, or a delete message carrying the header value of a card whose delete
  button was clicked. The data of a write message determines its four fields.
\<close>

theorem registry_messages_tagged:
  "sent (sendNewCommand t d c out p)
     = sent p @ [\<lparr>kind = messageKindCommand, operation = messageOperationWrite,
                  data = JSON_stringify [(js ''title'', t), (js ''description'', d),
                                         (js ''command'', c), (js ''output'', out)]\<rparr>]
   \<and> sent (sendDeleteCommand t p)
     = sent p @ [\<lparr>kind = messageKindCommand, operation = messageOperationDelete, data = t\<rparr>]
   \<and> (\<exists>ms. sent (handleAll es p) = sent p @ ms
        \<and> (\<forall>m\<in>set ms.
             kind m = messageKindCommand
             \<and> (operation m = messageOperationWrite
                  \<and> (\<exists>pick f. (FormSubmit pick f \<in> set es \<or> OkClick pick f \<in> set es)
                        \<and> data m = JSON_stringify
                             [(js ''title'', inputTitle f), (js ''description'', inputDescription f),
                              (js ''command'', inputCommand f), (js ''output'', inputOutput f)])
                \<or> operation m = messageOperationDelete
                  \<and> (\<exists>i v. DeleteClick i v \<in> set es \<and> data m = v))))
   \<and> (JSON_stringify [(js ''title'', t), (js ''description'', d),
                         (js ''command'', c), (js ''output'', out)]
        = JSON_stringify [(js ''title'', t'), (js ''description'', d'),
                          (js ''command'', c'), (js ''output'', out')]
      \<longrightarrow> t = t' \<and> d = d' \<and> c = c' \<and> out = out')"
proof (intro conjI)
  show "sent (sendNewCommand t d c out p)
     = sent p @ [\<lparr>kind = messageKindCommand, operation = messageOperationWrite,
                  data = JSON_stringify [(js ''title'', t), (js ''description'', d),
                                         (js ''command'', c), (js ''output'', out)]\<rparr>]"
    by (rule sent_sendNewCommand)
  show "sent (sendDeleteCommand t p)
     = sent p @ [\<lparr>kind = messageKindCommand, operation = messageOperationDelete, data = t\<rparr>]"
    by (rule sent_sendDeleteCommand)
  show "\<exists>ms. sent (handleAll es p) = sent p @ ms
        \<and> (\<forall>m\<in>set ms.
             kind m = messageKindCommand
             \<and> (operation m = messageOperationWrite
                  \<and> (\<exists>pick f. (FormSubmit pick f \<in> set es \<or> OkClick pick f \<in> set es)
                        \<and> data m = JSON_stringify
                             [(js ''title'', inputTitle f), (js ''description'', inputDescription f),
                              (js ''command'', inputCommand f), (js ''output'', inputOutput f)])
                \<or> operation m = messageOperationDelete
                  \<and> (\<exists>i v. DeleteClick i v \<in> set es \<and> data m = v)))"
    by (rule sent_handleAll)
  show "JSON_stringify [(js ''title'', t), (js ''description'', d),
                         (js ''command'', c), (js ''output'', out)]
        = JSON_stringify [(js ''title'', t'), (js ''description'', d'),
                          (js ''command'', c'), (js ''output'', out')]
      \<longrightarrow> t = t' \<and> d = d' \<and> c = c' \<and> out = out'"
    by (rule impI) (rule JSON_stringify_fields_inj)
qed

theorem registry_messages_tagged_witness:
  \<open>sent (handleAll
      [OkClick 2 \<lparr>inputTitle = js ''By the way'', inputDescription = [], inputCommand = js ''btw'',
                  inputOutput = js ''by the way''\<rparr>,
       DeleteClick 0 (js ''By the way'')]
      \<lparr>sent = [], cards = [], modalActive = True, formFocused = False\<rparr>)
    = [\<lparr>kind = js ''command'', operation = js ''write'',
        data = js ''{"title":"By the way","description":"","command":"btw","output":"by the way"}''\<rparr>,
       \<lparr>kind = js ''command'', operation = js ''delete'', data = js ''By the way''\<rparr>]\<close>
  using registry_messages_tagged
    [of "js ''By the way''" "[]" "js ''btw''" "js ''by the way''"
        "\<lparr>sent = [], cards = [], modalActive = True, formFocused = False\<rparr>"
        "[OkClick 2 \<lparr>inputTitle = js ''By the way'', inputDescription = [], inputCommand = js ''btw'',
                  inputOutput = js ''by the way''\<rparr>,
       DeleteClick 0 (js ''By the way'')]"
        "js ''By the way''" "[]" "js ''btw''" "js ''by the way''", THEN conjunct1]
  by (simp add: page_defs json_defs Let_def)

text \<open>
  Claim C7, as stated: the write path does not send a command whose trigger text is
  empty. \<open>validateModal\<close> tests the title only: a form with a title and an empty command
  field is sent, with the empty trigger in its data.
\<close>

theorem validateModal_sends_empty_trigger:
  \<open>sent (snd (validateModal 0
      \<lparr>inputTitle = js ''t'', inputDescription = [], inputCommand = [], inputOutput = js ''out''\<rparr>
      \<lparr>sent = [], cards = [], modalActive = True, formFocused = False\<rparr>))
    = [\<lparr>kind = js ''command'', operation = js ''write'',
        data = js ''{"title":"t","description":"","command":"","output":"out"}''\<rparr>]\<close>
  by (simp add: page_defs json_defs Let_def)

text \<open>
  Claim C7, amended. The write path rejects a command exactly when its title is empty:
  then it sends nothing and returns \<open>false\<close>. With a non-empty title it sends the write
  message whatever the trigger text is.
\<close>

theorem validateModal_checks_title_only:
  "fst (validateModal pick f p) = (if inputTitle f = [] then ReturnsFalse else ReturnsUndefined)
   \<and> sent (snd (validateModal pick f p)) =
       (if inputTitle f = [] then sent p
        else sent p @ [\<lparr>kind = messageKindCommand, operation = messageOperationWrite,
                  data = JSON_stringify [(js ''title'', inputTitle f), (js ''description'', inputDescription f),
                                         (js ''command'', inputCommand f), (js ''output'', inputOutput f)]\<rparr>])"
  by (simp add: page_defs Let_def)

theorem validateModal_checks_title_only_witness:
  "validateModal 0
      \<lparr>inputTitle = [], inputDescription = [], inputCommand = js ''btw'', inputOutput = js ''by the way''\<rparr>
      \<lparr>sent = [], cards = [], modalActive = True, formFocused = False\<rparr>
    = (ReturnsFalse, \<lparr>sent = [], cards = [], modalActive = True, formFocused = True\<rparr>)"
  using validateModal_checks_title_only
    [of 0 "\<lparr>inputTitle = [], inputDescription = [], inputCommand = js ''btw'', inputOutput = js ''by the way''\<rparr>"
        "\<lparr>sent = [], cards = [], modalActive = True, formFocused = False\<rparr>"]
  by (simp add: page_defs)

subsection \<open>The trigger matcher\<close>

lemma matcherStep_synthetic:
  "syntheticFlag ev \<Longrightarrow> matcherStep translate maxLen registry ev m = (None, m)"
  by (simp add: matcherStep_def)

lemma matcherRun_all_synthetic:
  "\<forall>ev\<in>set evs. syntheticFlag ev \<Longrightarrow> matcherRun translate maxLen registry evs m = ([], m)"
  by (induction evs) (simp_all add: matcherStep_synthetic)

lemma matcherRun_skips_synthetic:
  "matcherRun translate maxLen registry evs m
     = matcherRun translate maxLen registry (filter (\<lambda>ev. \<not> syntheticFlag ev) evs) m"
  by (induction evs arbitrary: m) (simp_all add: matcherStep_synthetic)

lemma keyChord_synthetic: "ev \<in> set (keyChord ms k) \<Longrightarrow> syntheticFlag ev"
  by (cases k) (auto simp: keyChord_def syntheticEvent_def split: if_splits)

lemma replay_synthetic: "ev \<in> set (replay keyFor ms cmd) \<Longrightarrow> syntheticFlag ev"
  by (auto simp: replay_def syntheticEvent_def split: if_splits dest: keyChord_synthetic)

text \<open>
  Claim C2. An event flagged synthetic leaves the rolling buffer as it was and fires no
  match. The events the replayer emits for a command are all synthetic, so feeding a
  replay back to the matcher fires nothing and changes nothing, whatever the output
  text contains; and over any sequence of events the matcher behaves as on the sequence
  with the synthetic events removed.
\<close>

theorem synthetic_events_never_reach_buffer:
  "(syntheticFlag ev \<longrightarrow>
      rollingBuffer (snd (matcherStep translate maxLen registry ev m)) = rollingBuffer m
      \<and> matcherStep translate maxLen registry ev m = (None, m))
   \<and> matcherRun translate maxLen registry (replay keyFor ms cmd) m = ([], m)
   \<and> matcherRun translate maxLen registry evs m
       = matcherRun translate maxLen registry (filter (\<lambda>ev. \<not> syntheticFlag ev) evs) m"
proof -
  have "\<forall>ev\<in>set (replay keyFor ms cmd). syntheticFlag ev"
    by (blast intro: replay_synthetic)
  then have "matcherRun translate maxLen registry (replay keyFor ms cmd) m = ([], m)"
    by (rule matcherRun_all_synthetic)
  then show ?thesis
    using matcherRun_skips_synthetic [of translate maxLen registry evs m]
    by (simp add: matcherStep_synthetic)
qed

theorem synthetic_events_never_reach_buffer_witness:
  "matcherStep
      (\<lambda>vk ms. if vk = 0x42 then Some CHR ''b'' else if vk = 0x54 then Some CHR ''t''
                else if vk = 0x57 then Some CHR ''w'' else None)
      8
      [''btw'' \<mapsto> \<lparr>trigger = ''btw'', commandTitle = ''t'', commandDescription = '''', commandOutput = ''btw''\<rparr>]
      \<lparr>virtualKeyCode = 0x57, isKeyUp = False,
        modifierSnapshot = \<lparr>shiftDown = False, ctrlDown = False, altDown = False\<rparr>,
        syntheticFlag = True\<rparr>
      \<lparr>rollingBuffer = ''bt'', modifierState = \<lparr>shiftDown = False, ctrlDown = False, altDown = False\<rparr>\<rparr>
     = (None, \<lparr>rollingBuffer = ''bt'', modifierState = \<lparr>shiftDown = False, ctrlDown = False, altDown = False\<rparr>\<rparr>)
   \<and> matcherStep
      (\<lambda>vk ms. if vk = 0x42 then Some CHR ''b'' else if vk = 0x54 then Some CHR ''t''
                else if vk = 0x57 then Some CHR ''w'' else None)
      8
      [''btw'' \<mapsto> \<lparr>trigger = ''btw'', commandTitle = ''t'', commandDescription = '''', commandOutput = ''btw''\<rparr>]
      \<lparr>virtualKeyCode = 0x57, isKeyUp = False,
        modifierSnapshot = \<lparr>shiftDown = False, ctrlDown = False, altDown = False\<rparr>,
        syntheticFlag = False\<rparr>
      \<lparr>rollingBuffer = ''bt'', modifierState = \<lparr>shiftDown = False, ctrlDown = False, altDown = False\<rparr>\<rparr>
     = (Some \<lparr>trigger = ''btw'', commandTitle = ''t'', commandDescription = '''', commandOutput = ''btw''\<rparr>,
        \<lparr>rollingBuffer = '''', modifierState = \<lparr>shiftDown = False, ctrlDown = False, altDown = False\<rparr>\<rparr>)
   \<and> matcherRun
      (\<lambda>vk ms. if vk = 0x42 then Some CHR ''b'' else if vk = 0x54 then Some CHR ''t''
                else if vk = 0x57 then Some CHR ''w'' else None)
      8
      [''btw'' \<mapsto> \<lparr>trigger = ''btw'', commandTitle = ''t'', commandDescription = '''', commandOutput = ''btw''\<rparr>]
      (replay (\<lambda>c. if c = CHR ''b'' then (0x42, False) else if c = CHR ''t'' then (0x54, False) else (0x57, False))
         \<lparr>shiftDown = False, ctrlDown = False, altDown = False\<rparr>
         \<lparr>trigger = ''btw'', commandTitle = ''t'', commandDescription = '''', commandOutput = ''btw''\<rparr>)
      \<lparr>rollingBuffer = '''', modifierState = \<lparr>shiftDown = False, ctrlDown = False, altDown = False\<rparr>\<rparr>
     = ([], \<lparr>rollingBuffer = '''', modifierState = \<lparr>shiftDown = False, ctrlDown = False, altDown = False\<rparr>\<rparr>)"
  using synthetic_events_never_reach_buffer
    [where ev = "\<lparr>virtualKeyCode = 0x57, isKeyUp = False,
        modifierSnapshot = \<lparr>shiftDown = False, ctrlDown = False, altDown = False\<rparr>,
        syntheticFlag = True\<rparr>"
      and translate = "\<lambda>vk ms. if vk = 0x42 then Some CHR ''b'' else if vk = 0x54 then Some CHR ''t''
                else if vk = 0x57 then Some CHR ''w'' else None"
      and maxLen = 8
      and registry = "[''btw'' \<mapsto> \<lparr>trigger = ''btw'', commandTitle = ''t'', commandDescription = '''', commandOutput = ''btw''\<rparr>]"
      and m = "\<lparr>rollingBuffer = ''bt'', modifierState = \<lparr>shiftDown = False, ctrlDown = False, altDown = False\<rparr>\<rparr>"
      and evs = "[]"]
    synthetic_events_never_reach_buffer
    [where ev = "\<lparr>virtualKeyCode = 0x57, isKeyUp = False,
        modifierSnapshot = \<lparr>shiftDown = False, ctrlDown = False, altDown = False\<rparr>,
        syntheticFlag = True\<rparr>"
      and translate = "\<lambda>vk ms. if vk = 0x42 then Some CHR ''b'' else if vk = 0x54 then Some CHR ''t''
                else if vk = 0x57 then Some CHR ''w'' else None"
      and maxLen = 8
      and registry = "[''btw'' \<mapsto> \<lparr>trigger = ''btw'', commandTitle = ''t'', commandDescription = '''', commandOutput = ''btw''\<rparr>]"
      and m = "\<lparr>rollingBuffer = '''', modifierState = \<lparr>shiftDown = False, ctrlDown = False, altDown = False\<rparr>\<rparr>"
      and keyFor = "\<lambda>c. if c = CHR ''b'' then (0x42, False) else if c = CHR ''t'' then (0x54, False) else (0x57, False)"
      and ms = "\<lparr>shiftDown = False, ctrlDown = False, altDown = False\<rparr>"
      and cmd = "\<lparr>trigger = ''btw'', commandTitle = ''t'', commandDescription = '''', commandOutput = ''btw''\<rparr>"
      and evs = "[]"]
  by (simp add: matcherStep_def Let_def isModifierKey_def isControlKey_def evict_def
        VK_SHIFT_def VK_CONTROL_def VK_MENU_def VK_LEFT_def VK_UP_def VK_RIGHT_def VK_DOWN_def
        VK_HOME_def VK_END_def VK_BACK_def)

end
